theory Spec2Isabelle
  imports Main "HOL-Library.Word" "HOL-Library.Sublist"
begin

section \<open>AppleGPUInfo: the GPU core count and clock speed read from the IOKit registry\<close>

text \<open>
  The program is \<^verbatim>\<open>src/AppleGPUInfo/main.cpp\<close>. It locates the single
  \<^verbatim>\<open>AGXAccelerator\<close> entry of the IOKit registry, reads its
  \<^verbatim>\<open>gpu-core-count\<close> and \<^verbatim>\<open>model\<close> properties, derives a clock speed
  from the model string and prints both numbers. Every check that fails ends the process
  through \<^verbatim>\<open>exit(-1)\<close>.

  The embedding follows the file function by function. The process is a state
  transformer over the list of effects it has had so far (calls into IOKit and
  CoreFoundation, writes to the two streams); \<^verbatim>\<open>exit\<close> is the left summand of the
  result, so that nothing after it runs. Only the macOS branch of
  \<^verbatim>\<open>get_gpu_core_count\<close> is modelled: under \<^verbatim>\<open>TARGET_OS_IPHONE\<close> the function has
  no body.
\<close>

subsection \<open>Machine types\<close>

text \<open>\<^verbatim>\<open>int64_t\<close> is a 64-bit word read as two's complement through \<^const>\<open>sint\<close>;
  \<^verbatim>\<open>kern_return_t\<close> and the argument of \<^verbatim>\<open>exit\<close> are C \<^verbatim>\<open>int\<close>s.\<close>

type_synonym int64_t = "64 word"
type_synonym kern_return_t = "32 word"
type_synonym exit_status = "32 word"

subsection \<open>The registry and the CoreFoundation values the program reads\<close>

text \<open>The enumeration \<^verbatim>\<open>CFNumberType\<close> of \<^verbatim>\<open>CFNumber.h\<close>, in its order.\<close>

datatype CFNumberType =
    kCFNumberSInt8Type | kCFNumberSInt16Type | kCFNumberSInt32Type | kCFNumberSInt64Type
  | kCFNumberFloat32Type | kCFNumberFloat64Type
  | kCFNumberCharType | kCFNumberShortType | kCFNumberIntType | kCFNumberLongType
  | kCFNumberLongLongType | kCFNumberFloatType | kCFNumberDoubleType
  | kCFNumberCFIndexType | kCFNumberNSIntegerType | kCFNumberCGFloatType

text \<open>
  A \<^verbatim>\<open>CFNumber\<close> as the program observes it: the type \<^verbatim>\<open>CFNumberGetType\<close> reports,
  and what \<^verbatim>\<open>CFNumberGetValue\<close> does in the one call the source makes, with that
  type and the address of an \<^verbatim>\<open>int64_t\<close>: the value it stores there and the flag it
  returns.
\<close>

record CFNumber =
  number_type :: CFNumberType
  number_value :: int64_t
  number_retrieved :: bool

text \<open>
  A registry entry is its property table. The source casts what
  \<^verbatim>\<open>IORegistryEntrySearchCFProperty\<close> returns to \<^verbatim>\<open>CFNumberRef\<close> for one key and to
  \<^verbatim>\<open>CFStringRef\<close> for the other without a check, so the table is split by the class of
  the value: a property found under a key has the class the source casts it to. A
  \<^verbatim>\<open>CFString\<close> is the list of its characters.
\<close>

record registry_entry =
  number_properties :: "string \<rightharpoonup> CFNumber"
  string_properties :: "string \<rightharpoonup> string"

text \<open>An \<^verbatim>\<open>io_registry_entry_t\<close> is \<^verbatim>\<open>IO_OBJECT_NULL\<close> (\<open>None\<close>) or refers to an entry;
  a \<^verbatim>\<open>CFMutableDictionaryRef\<close> is \<^verbatim>\<open>NULL\<close> or the matching dictionary of a class
  name; an \<^verbatim>\<open>io_iterator_t\<close> is the list of entries it has not yet yielded.\<close>

type_synonym io_registry_entry_t = "registry_entry option"
type_synonym CFMutableDictionaryRef = "string option"
type_synonym io_iterator_t = "registry_entry list"

text \<open>
  What the operating system answers to the program's service query: whether
  \<^verbatim>\<open>IOServiceMatching\<close> builds a dictionary, the status of
  \<^verbatim>\<open>IOServiceGetMatchingServices\<close>, and the entries its iterator yields.
\<close>

record iokit =
  service_matching :: bool
  matching_status :: kern_return_t
  matching_services :: "registry_entry list"

subsection \<open>The process: effects so far, and exit\<close>

datatype io_object = Iterator | Entry

datatype event =
    Call_IOServiceMatching string
  | Call_IOServiceGetMatchingServices
  | Call_IOIteratorNext
  | Call_IOObjectRelease io_object
  | Call_IORegistryEntrySearchCFProperty string
  | Call_CFNumberGetType
  | Call_CFNumberGetValue
  | Call_CFRelease
  | Write_cout string
  | Write_cerr string

type_synonym 'a proc = "event list \<Rightarrow> (exit_status + 'a) \<times> event list"

definition return :: "'a \<Rightarrow> 'a proc" where
  "return x tr = (Inr x, tr)"

definition bind :: "'a proc \<Rightarrow> ('a \<Rightarrow> 'b proc) \<Rightarrow> 'b proc" where
  "bind m f tr = (case m tr of (Inl status, tr') \<Rightarrow> (Inl status, tr') | (Inr x, tr') \<Rightarrow> f x tr')"

definition emit :: "event \<Rightarrow> unit proc" where
  "emit e tr = (Inr (), tr @ [e])"

definition exit :: "exit_status \<Rightarrow> 'a proc" where
  "exit status tr = (Inl status, tr)"

text \<open>The parent of the process is given the low eight bits of the exit status.\<close>

definition wait_status :: "exit_status \<Rightarrow> nat" where
  "wait_status status = unat status mod 256"

subsection \<open>The library calls\<close>

definition IOServiceMatching :: "iokit \<Rightarrow> string \<Rightarrow> CFMutableDictionaryRef proc" where
  "IOServiceMatching os name =
     bind (emit (Call_IOServiceMatching name)) (\<lambda>_.
     return (if service_matching os then Some name else None))"

definition IOServiceGetMatchingServices ::
  "iokit \<Rightarrow> CFMutableDictionaryRef \<Rightarrow> (kern_return_t \<times> io_iterator_t) proc" where
  "IOServiceGetMatchingServices os matching =
     bind (emit Call_IOServiceGetMatchingServices) (\<lambda>_.
     return (matching_status os, matching_services os))"

text \<open>\<^verbatim>\<open>IOIteratorNext\<close> yields the next entry and advances, or \<^verbatim>\<open>IO_OBJECT_NULL\<close>
  when the iterator is exhausted.\<close>

definition IOIteratorNext :: "io_iterator_t \<Rightarrow> (io_registry_entry_t \<times> io_iterator_t) proc" where
  "IOIteratorNext iterator =
     bind (emit Call_IOIteratorNext) (\<lambda>_.
     return (case iterator of [] \<Rightarrow> (None, []) | entry # rest \<Rightarrow> (Some entry, rest)))"

definition IOObjectRelease :: "io_object \<Rightarrow> unit proc" where
  "IOObjectRelease object = emit (Call_IOObjectRelease object)"

text \<open>\<^verbatim>\<open>IORegistryEntrySearchCFProperty\<close>, once for each class the source casts its
  result to. A search from \<^verbatim>\<open>IO_OBJECT_NULL\<close> finds nothing: there is no entry to
  search.\<close>

definition IORegistryEntrySearchCFProperty_number ::
  "io_registry_entry_t \<Rightarrow> string \<Rightarrow> CFNumber option proc" where
  "IORegistryEntrySearchCFProperty_number entry key =
     bind (emit (Call_IORegistryEntrySearchCFProperty key)) (\<lambda>_.
     return (case entry of None \<Rightarrow> None | Some e \<Rightarrow> number_properties e key))"

definition IORegistryEntrySearchCFProperty_string ::
  "io_registry_entry_t \<Rightarrow> string \<Rightarrow> string option proc" where
  "IORegistryEntrySearchCFProperty_string entry key =
     bind (emit (Call_IORegistryEntrySearchCFProperty key)) (\<lambda>_.
     return (case entry of None \<Rightarrow> None | Some e \<Rightarrow> string_properties e key))"

definition CFNumberGetType :: "CFNumber \<Rightarrow> CFNumberType proc" where
  "CFNumberGetType number = bind (emit Call_CFNumberGetType) (\<lambda>_. return (number_type number))"

definition CFNumberGetValue :: "CFNumber \<Rightarrow> CFNumberType \<Rightarrow> (bool \<times> int64_t) proc" where
  "CFNumberGetValue number theType =
     bind (emit Call_CFNumberGetValue) (\<lambda>_.
     return (number_retrieved number, number_value number))"

definition CFRelease :: "unit proc" where
  "CFRelease = emit Call_CFRelease"

definition CFStringHasPrefix :: "string \<Rightarrow> string \<Rightarrow> bool" where
  "CFStringHasPrefix theString p = prefix p theString"

definition CFStringHasSuffix :: "string \<Rightarrow> string \<Rightarrow> bool" where
  "CFStringHasSuffix theString s = suffix s theString"

text \<open>The stream inserters: a string is written as it is, an \<^verbatim>\<open>int64_t\<close> in signed
  decimal. \<open>digit\<close> is only applied to numbers below ten.\<close>

definition digit :: "nat \<Rightarrow> char" where
  "digit d = ''0123456789'' ! d"

fun decimal :: "nat \<Rightarrow> string" where
  "decimal n = (if n < 10 then [digit n] else decimal (n div 10) @ [digit (n mod 10)])"

declare decimal.simps [simp del]

definition string_of_int64 :: "int64_t \<Rightarrow> string" where
  "string_of_int64 v =
     (if sint v < 0 then CHR ''-'' # decimal (nat (- sint v)) else decimal (nat (sint v)))"

definition endl :: string where
  "endl = [CHR 0x0A]"

definition cout :: "string \<Rightarrow> unit proc" where
  "cout s = emit (Write_cout s)"

definition cerr :: "string \<Rightarrow> unit proc" where
  "cerr s = emit (Write_cerr s)"

subsection \<open>The functions of \<^verbatim>\<open>main.cpp\<close>\<close>

definition print_error_message :: "string \<Rightarrow> 'a proc" where
  "print_error_message message =
     bind (cerr endl) (\<lambda>_.
     bind (cerr message) (\<lambda>_.
     bind (cerr endl) (\<lambda>_.
     exit (- 1))))"

definition release_assert :: "bool \<Rightarrow> string \<Rightarrow> unit proc" where
  "release_assert condition message =
     (if \<not> condition then print_error_message message else return ())"

definition get_gpu_entry :: "iokit \<Rightarrow> io_registry_entry_t proc" where
  "get_gpu_entry os =
     bind (IOServiceMatching os ''AGXAccelerator'') (\<lambda>match_dictionary.
     bind (release_assert (match_dictionary \<noteq> None)
             ''Could not find AGXAccelerator service.'') (\<lambda>_.
     bind (IOServiceGetMatchingServices os match_dictionary) (\<lambda>(error, entry_iterator).
     bind (release_assert (error = 0) ''No objects match AGXAccelerator service.'') (\<lambda>_.
     bind (IOIteratorNext entry_iterator) (\<lambda>(gpu_entry, entry_iterator).
     bind (IOIteratorNext entry_iterator) (\<lambda>(second, entry_iterator).
     bind (release_assert (second = None) ''Found multiple GPUs.'') (\<lambda>_.
     bind (IOObjectRelease Iterator) (\<lambda>_.
     return gpu_entry))))))))"

text \<open>After the first \<^verbatim>\<open>release_assert\<close> the property is not \<^verbatim>\<open>NULL\<close>, which is
  what \<^const>\<open>the\<close> reads.\<close>

definition get_gpu_core_count :: "io_registry_entry_t \<Rightarrow> int64_t proc" where
  "get_gpu_core_count gpu_entry =
     bind (IORegistryEntrySearchCFProperty_number gpu_entry ''gpu-core-count'')
       (\<lambda>gpu_core_count.
     bind (release_assert (gpu_core_count \<noteq> None)
             ''Could not find 'gpu-core-count' property.'') (\<lambda>_.
     bind (CFNumberGetType (the gpu_core_count)) (\<lambda>type.
     bind (release_assert (type = kCFNumberSInt64Type) '''gpu-core-count' not sInt64.'')
       (\<lambda>_.
     bind (CFNumberGetValue (the gpu_core_count) type) (\<lambda>(retrieved_value, v).
     bind (release_assert retrieved_value ''Could not fetch 'gpu-core-count' value.'')
       (\<lambda>_.
     bind CFRelease (\<lambda>_.
     return v)))))))"

text \<open>The chain of comparisons of \<^verbatim>\<open>get_gpu_max_clock_speed\<close> (lines 76 to 113), on
  the model string that function has read.\<close>

definition max_clock_speed_of_model :: "string \<Rightarrow> int64_t" where
  "max_clock_speed_of_model model =
     (if CFStringHasPrefix model ''Apple M1'' then
        (if CFStringHasSuffix model ''M1'' then 1278
         else if CFStringHasSuffix model ''Pro'' then 1296
         else if CFStringHasSuffix model ''Max'' then 1296
         else if CFStringHasSuffix model ''Ultra'' then 1296
         else 1278)
      else if CFStringHasPrefix model ''Apple M2'' then
        (if CFStringHasSuffix model ''M2'' then 1398
         else 1398)
      else if CFStringHasPrefix model ''Apple M'' then 1398
      else if CFStringHasPrefix model ''Apple A'' then
        (if CFStringHasSuffix model ''A14'' then 1278
         else if CFStringHasSuffix model ''A15'' then 1336
         else if CFStringHasSuffix model ''A16'' then 1336
         else 1336)
      else 0)"

definition get_gpu_max_clock_speed :: "io_registry_entry_t \<Rightarrow> int64_t proc" where
  "get_gpu_max_clock_speed gpu_entry =
     bind (IORegistryEntrySearchCFProperty_string gpu_entry ''model'') (\<lambda>model.
     bind (release_assert (model \<noteq> None) ''Could not find 'model' property.'') (\<lambda>_.
     return (max_clock_speed_of_model (the model))))"

definition main :: "iokit \<Rightarrow> exit_status proc" where
  "main os =
     bind (get_gpu_entry os) (\<lambda>gpu_entry.
     bind (get_gpu_core_count gpu_entry) (\<lambda>core_count.
     bind (get_gpu_max_clock_speed gpu_entry) (\<lambda>max_clock_speed.
     bind (IOObjectRelease Entry) (\<lambda>_.
     bind (cout ''The GPU has '') (\<lambda>_.
     bind (cout (string_of_int64 core_count)) (\<lambda>_.
     bind (cout '' cores.'') (\<lambda>_.
     bind (cout endl) (\<lambda>_.
     bind (cout ''The GPU runs at '') (\<lambda>_.
     bind (cout (string_of_int64 max_clock_speed)) (\<lambda>_.
     bind (cout '' MHz.'') (\<lambda>_.
     bind (cout endl) (\<lambda>_.
     return 0))))))))))))"

subsection \<open>A run of the program and what it leaves behind\<close>

text \<open>A run starts with no effects. Its exit status is the argument of \<^verbatim>\<open>exit\<close> or
  the value \<^verbatim>\<open>main\<close> returns.\<close>

definition run :: "iokit \<Rightarrow> exit_status \<times> event list" where
  "run os = (case main os [] of (Inl status, tr) \<Rightarrow> (status, tr) | (Inr status, tr) \<Rightarrow> (status, tr))"

definition status_of :: "iokit \<Rightarrow> exit_status" where
  "status_of os = fst (run os)"

definition trace_of :: "iokit \<Rightarrow> event list" where
  "trace_of os = snd (run os)"

fun stdout_of :: "event list \<Rightarrow> string" where
  "stdout_of [] = []"
| "stdout_of (Write_cout s # tr) = s @ stdout_of tr"
| "stdout_of (_ # tr) = stdout_of tr"

fun stderr_of :: "event list \<Rightarrow> string" where
  "stderr_of [] = []"
| "stderr_of (Write_cerr s # tr) = s @ stderr_of tr"
| "stderr_of (_ # tr) = stderr_of tr"

text \<open>The calls of a trace, without the writes to the streams.\<close>

fun is_call :: "event \<Rightarrow> bool" where
  "is_call (Write_cout _) = False"
| "is_call (Write_cerr _) = False"
| "is_call _ = True"

definition calls_of :: "event list \<Rightarrow> event list" where
  "calls_of tr = filter is_call tr"

text \<open>The calls each function of the source makes when none of its checks fails, and
  the calls of a whole run then.\<close>

definition locate_calls :: "event list" where
  "locate_calls =
     [Call_IOServiceMatching ''AGXAccelerator'', Call_IOServiceGetMatchingServices,
      Call_IOIteratorNext, Call_IOIteratorNext, Call_IOObjectRelease Iterator]"

definition core_count_calls :: "event list" where
  "core_count_calls =
     [Call_IORegistryEntrySearchCFProperty ''gpu-core-count'', Call_CFNumberGetType,
      Call_CFNumberGetValue, Call_CFRelease]"

definition clock_speed_calls :: "event list" where
  "clock_speed_calls = [Call_IORegistryEntrySearchCFProperty ''model'']"

definition success_calls :: "event list" where
  "success_calls =
     locate_calls @ core_count_calls @ clock_speed_calls @ [Call_IOObjectRelease Entry]"

text \<open>The two statements of \<^verbatim>\<open>main\<close> that write to \<^verbatim>\<open>std::cout\<close>, as the writes
  they make.\<close>

definition print_events :: "int64_t \<Rightarrow> int64_t \<Rightarrow> event list" where
  "print_events core_count max_clock_speed =
     [Write_cout ''The GPU has '', Write_cout (string_of_int64 core_count),
      Write_cout '' cores.'', Write_cout endl,
      Write_cout ''The GPU runs at '', Write_cout (string_of_int64 max_clock_speed),
      Write_cout '' MHz.'', Write_cout endl]"

text \<open>
  A fatal run: the message between two line ends on the error stream and nothing on the
  output stream, \<^verbatim>\<open>exit(-1)\<close>, and only calls that a run without failure makes too, in
  the same order, cut short.
\<close>

definition fatal_with :: "iokit \<Rightarrow> string \<Rightarrow> bool" where
  "fatal_with os message \<longleftrightarrow>
     status_of os = - 1 \<and>
     stdout_of (trace_of os) = [] \<and>
     stderr_of (trace_of os) = endl @ message @ endl \<and>
     strict_prefix (calls_of (trace_of os)) success_calls"

text \<open>The stage of the run an effect belongs to, and the stages of a trace in the order
  the run enters them.\<close>

datatype phase = Locate | Read_core_count | Read_model | Release | Print | Report_error

fun phase_of :: "event \<Rightarrow> phase" where
  "phase_of (Call_IOServiceMatching _) = Locate"
| "phase_of Call_IOServiceGetMatchingServices = Locate"
| "phase_of Call_IOIteratorNext = Locate"
| "phase_of (Call_IOObjectRelease Iterator) = Locate"
| "phase_of (Call_IOObjectRelease Entry) = Release"
| "phase_of (Call_IORegistryEntrySearchCFProperty key) =
     (if key = ''gpu-core-count'' then Read_core_count else Read_model)"
| "phase_of Call_CFNumberGetType = Read_core_count"
| "phase_of Call_CFNumberGetValue = Read_core_count"
| "phase_of Call_CFRelease = Read_core_count"
| "phase_of (Write_cout _) = Print"
| "phase_of (Write_cerr _) = Report_error"

definition phases_of :: "event list \<Rightarrow> phase list" where
  "phases_of tr = remdups_adj (map phase_of tr)"

subsection \<open>Registries to run the program on\<close>

text \<open>A machine with one accelerator: ten cores, model \<^verbatim>\<open>Apple M2\<close>.\<close>

definition ten_cores :: CFNumber where
  "ten_cores = \<lparr>number_type = kCFNumberSInt64Type, number_value = 10, number_retrieved = True\<rparr>"

definition m2_entry :: registry_entry where
  "m2_entry =
     \<lparr>number_properties = [''gpu-core-count'' \<mapsto> ten_cores],
      string_properties = [''model'' \<mapsto> ''Apple M2'']\<rparr>"

definition m2_os :: iokit where
  "m2_os = \<lparr>service_matching = True, matching_status = 0, matching_services = [m2_entry]\<rparr>"

text \<open>The same machine with each answer of the operating system changed in turn, one
  for every check of the source.\<close>

definition no_dictionary_os :: iokit where
  "no_dictionary_os = m2_os\<lparr>service_matching := False\<rparr>"

definition query_error_os :: iokit where
  "query_error_os = m2_os\<lparr>matching_status := 5\<rparr>"

definition no_gpu_os :: iokit where
  "no_gpu_os = m2_os\<lparr>matching_services := []\<rparr>"

definition two_gpus_os :: iokit where
  "two_gpus_os = m2_os\<lparr>matching_services := [m2_entry, m2_entry]\<rparr>"

definition os_with :: "registry_entry \<Rightarrow> iokit" where
  "os_with e = m2_os\<lparr>matching_services := [e]\<rparr>"

definition no_core_count_entry :: registry_entry where
  "no_core_count_entry = m2_entry\<lparr>number_properties := Map.empty\<rparr>"

definition sint32_entry :: registry_entry where
  "sint32_entry =
     m2_entry\<lparr>number_properties :=
       [''gpu-core-count'' \<mapsto> ten_cores\<lparr>number_type := kCFNumberSInt32Type\<rparr>]\<rparr>"

definition unretrieved_entry :: registry_entry where
  "unretrieved_entry =
     m2_entry\<lparr>number_properties :=
       [''gpu-core-count'' \<mapsto> ten_cores\<lparr>number_retrieved := False\<rparr>]\<rparr>"

definition no_model_entry :: registry_entry where
  "no_model_entry = m2_entry\<lparr>string_properties := Map.empty\<rparr>"

subsection \<open>Notions the properties are stated with\<close>

text \<open>The locator hands \<open>e\<close> to \<^verbatim>\<open>main\<close>: the dictionary was built, the query
  reported no error and found \<open>e\<close> alone.\<close>

definition locates :: "iokit \<Rightarrow> registry_entry \<Rightarrow> bool" where
  "locates os e \<longleftrightarrow>
     service_matching os \<and> matching_status os = 0 \<and> matching_services os = [e]"

text \<open>The messages of the seven \<^verbatim>\<open>release_assert\<close> calls, in the order of the source.\<close>

definition assert_messages :: "string list" where
  "assert_messages =
     [''Could not find AGXAccelerator service.'',
      ''No objects match AGXAccelerator service.'',
      ''Found multiple GPUs.'',
      ''Could not find 'gpu-core-count' property.'',
      '''gpu-core-count' not sInt64.'',
      ''Could not fetch 'gpu-core-count' value.'',
      ''Could not find 'model' property.'']"

section \<open>Running the program symbolically\<close>

subsection \<open>The process combinators\<close>

lemma bind_return: "bind (return x) f = f x"
  by (rule ext) (simp add: bind_def return_def)

lemma bind_emit: "bind (emit e) f tr = f () (tr @ [e])"
  by (simp add: bind_def emit_def)

lemma bind_assoc: "bind (bind m f) g = bind m (\<lambda>x. bind (f x) g)"
  by (rule ext) (simp add: bind_def split: prod.splits sum.splits)

lemma print_error_message_run:
  "print_error_message message tr =
     (Inl (- 1), tr @ [Write_cerr endl, Write_cerr message, Write_cerr endl])"
  by (simp add: print_error_message_def cerr_def bind_emit exit_def)

lemma bind_release_assert:
  "bind (release_assert condition message) f tr =
     (if condition then f () tr
      else (Inl (- 1), tr @ [Write_cerr endl, Write_cerr message, Write_cerr endl]))"
  by (simp add: release_assert_def bind_return) (simp add: bind_def print_error_message_run)

subsection \<open>Each function of the source, path by path\<close>

lemma get_gpu_entry_run:
  "get_gpu_entry os tr =
     (if \<not> service_matching os then
        (Inl (- 1), tr @ [Call_IOServiceMatching ''AGXAccelerator'', Write_cerr endl,
           Write_cerr ''Could not find AGXAccelerator service.'', Write_cerr endl])
      else if matching_status os \<noteq> 0 then
        (Inl (- 1), tr @ [Call_IOServiceMatching ''AGXAccelerator'',
           Call_IOServiceGetMatchingServices, Write_cerr endl,
           Write_cerr ''No objects match AGXAccelerator service.'', Write_cerr endl])
      else (case matching_services os of
          [] \<Rightarrow> (Inr None, tr @ locate_calls)
        | [e] \<Rightarrow> (Inr (Some e), tr @ locate_calls)
        | e # e' # rest \<Rightarrow>
           (Inl (- 1), tr @ [Call_IOServiceMatching ''AGXAccelerator'',
              Call_IOServiceGetMatchingServices, Call_IOIteratorNext, Call_IOIteratorNext,
              Write_cerr endl, Write_cerr ''Found multiple GPUs.'', Write_cerr endl])))"
  by (simp add: get_gpu_entry_def IOServiceMatching_def IOServiceGetMatchingServices_def
      IOIteratorNext_def IOObjectRelease_def bind_assoc bind_emit bind_return
      bind_release_assert locate_calls_def return_def split: list.splits)

lemma get_gpu_core_count_run:
  "get_gpu_core_count gpu_entry tr =
     (case (case gpu_entry of None \<Rightarrow> None
            | Some e \<Rightarrow> number_properties e ''gpu-core-count'') of
        None \<Rightarrow>
          (Inl (- 1), tr @ [Call_IORegistryEntrySearchCFProperty ''gpu-core-count'',
             Write_cerr endl, Write_cerr ''Could not find 'gpu-core-count' property.'',
             Write_cerr endl])
      | Some number \<Rightarrow>
          if number_type number \<noteq> kCFNumberSInt64Type then
            (Inl (- 1), tr @ [Call_IORegistryEntrySearchCFProperty ''gpu-core-count'',
               Call_CFNumberGetType, Write_cerr endl,
               Write_cerr '''gpu-core-count' not sInt64.'', Write_cerr endl])
          else if \<not> number_retrieved number then
            (Inl (- 1), tr @ [Call_IORegistryEntrySearchCFProperty ''gpu-core-count'',
               Call_CFNumberGetType, Call_CFNumberGetValue, Write_cerr endl,
               Write_cerr ''Could not fetch 'gpu-core-count' value.'', Write_cerr endl])
          else (Inr (number_value number), tr @ core_count_calls))"
  by (simp add: get_gpu_core_count_def IORegistryEntrySearchCFProperty_number_def
      CFNumberGetType_def CFNumberGetValue_def CFRelease_def bind_assoc bind_emit bind_return
      bind_release_assert core_count_calls_def return_def split: option.splits)

lemma get_gpu_max_clock_speed_run:
  "get_gpu_max_clock_speed gpu_entry tr =
     (case (case gpu_entry of None \<Rightarrow> None | Some e \<Rightarrow> string_properties e ''model'') of
        None \<Rightarrow>
          (Inl (- 1), tr @ [Call_IORegistryEntrySearchCFProperty ''model'',
             Write_cerr endl, Write_cerr ''Could not find 'model' property.'', Write_cerr endl])
      | Some model \<Rightarrow> (Inr (max_clock_speed_of_model model), tr @ clock_speed_calls))"
  by (simp add: get_gpu_max_clock_speed_def IORegistryEntrySearchCFProperty_string_def
      bind_assoc bind_emit bind_return bind_release_assert clock_speed_calls_def return_def
      split: option.splits)

lemma main_print:
  "bind (IOObjectRelease Entry) (\<lambda>_.
     bind (cout ''The GPU has '') (\<lambda>_.
     bind (cout (string_of_int64 core_count)) (\<lambda>_.
     bind (cout '' cores.'') (\<lambda>_.
     bind (cout endl) (\<lambda>_.
     bind (cout ''The GPU runs at '') (\<lambda>_.
     bind (cout (string_of_int64 max_clock_speed)) (\<lambda>_.
     bind (cout '' MHz.'') (\<lambda>_.
     bind (cout endl) (\<lambda>_.
     return 0))))))))) tr =
   (Inr 0, tr @ Call_IOObjectRelease Entry # print_events core_count max_clock_speed)"
  by (simp add: IOObjectRelease_def cout_def bind_emit return_def print_events_def)

lemma main_run:
  "main os tr =
     (case get_gpu_entry os tr of
        (Inl status, tr1) \<Rightarrow> (Inl status, tr1)
      | (Inr gpu_entry, tr1) \<Rightarrow>
         (case get_gpu_core_count gpu_entry tr1 of
            (Inl status, tr2) \<Rightarrow> (Inl status, tr2)
          | (Inr core_count, tr2) \<Rightarrow>
             (case get_gpu_max_clock_speed gpu_entry tr2 of
                (Inl status, tr3) \<Rightarrow> (Inl status, tr3)
              | (Inr max_clock_speed, tr3) \<Rightarrow>
                 (Inr 0, tr3 @ Call_IOObjectRelease Entry
                    # print_events core_count max_clock_speed))))"
  unfolding main_def by (simp add: bind_def [of "get_gpu_entry os"]
      bind_def [of "get_gpu_core_count _"] bind_def [of "get_gpu_max_clock_speed _"]
      main_print split: prod.splits sum.splits)

lemmas run_simps = run_def status_of_def trace_of_def main_run get_gpu_entry_run
  get_gpu_core_count_run get_gpu_max_clock_speed_run

lemmas trace_simps = locate_calls_def core_count_calls_def clock_speed_calls_def
  success_calls_def print_events_def calls_of_def

lemmas table_simps = max_clock_speed_of_model_def CFStringHasPrefix_def CFStringHasSuffix_def

lemmas example_simps = m2_os_def m2_entry_def ten_cores_def no_dictionary_os_def
  query_error_os_def no_gpu_os_def two_gpus_os_def os_with_def no_core_count_entry_def
  sint32_entry_def unretrieved_entry_def no_model_entry_def

section \<open>The clock-speed table\<close>

text \<open>
  C5. The table maps each documented model string to its documented constant: a model
  string that starts with \<^verbatim>\<open>Apple M1\<close> and ends with \<^verbatim>\<open>Max\<close> gives 1296, the
  string \<^verbatim>\<open>Apple M1\<close> itself gives 1278, and a model string that starts with
  \<^verbatim>\<open>Apple A\<close> and ends with \<^verbatim>\<open>A15\<close> gives 1336.
\<close>

theorem documented_models:
  "(prefix ''Apple M1'' model \<and> suffix ''Max'' model \<longrightarrow>
      max_clock_speed_of_model model = 1296)
   \<and> max_clock_speed_of_model ''Apple M1'' = 1278
   \<and> (prefix ''Apple A'' model \<and> suffix ''A15'' model \<longrightarrow>
      max_clock_speed_of_model model = 1336)"
  by (auto simp add: table_simps suffix_def prefix_def)

theorem documented_models_witness:
  "prefix ''Apple M1'' ''Apple M1 Max'' \<and> suffix ''Max'' ''Apple M1 Max''
   \<and> max_clock_speed_of_model ''Apple M1 Max'' = 1296
   \<and> prefix ''Apple A'' ''Apple A15'' \<and> suffix ''A15'' ''Apple A15''
   \<and> max_clock_speed_of_model ''Apple A15'' = 1336"
proof -
  have m1: "prefix ''Apple M1'' ''Apple M1 Max'' \<and> suffix ''Max'' ''Apple M1 Max''"
    by (simp add: suffix_to_prefix)
  have a15: "prefix ''Apple A'' ''Apple A15'' \<and> suffix ''A15'' ''Apple A15''"
    by (simp add: suffix_to_prefix)
  from m1 a15 documented_models [of "''Apple M1 Max''"] documented_models [of "''Apple A15''"]
  show ?thesis by blast
qed

text \<open>
  C6. A model string of a recognized family whose ending is none of the family's listed
  tiers gets the family's default instead of a failure: 1278 in the M1 family (so for
  \<^verbatim>\<open>Apple M1 Foo\<close>), 1398 in the M2 family and for every other \<^verbatim>\<open>Apple M\<close>
  string, 1336 in the \<^verbatim>\<open>Apple A\<close> family.
\<close>

theorem unrecognized_suffix_default:
  "(prefix ''Apple M1'' model \<and> \<not> suffix ''M1'' model \<and> \<not> suffix ''Pro'' model
      \<and> \<not> suffix ''Max'' model \<and> \<not> suffix ''Ultra'' model
      \<longrightarrow> max_clock_speed_of_model model = 1278)
   \<and> (prefix ''Apple M2'' model \<and> \<not> suffix ''M2'' model
      \<longrightarrow> max_clock_speed_of_model model = 1398)
   \<and> (prefix ''Apple M'' model \<and> \<not> prefix ''Apple M1'' model \<and> \<not> prefix ''Apple M2'' model
      \<longrightarrow> max_clock_speed_of_model model = 1398)
   \<and> (prefix ''Apple A'' model \<and> \<not> suffix ''A14'' model \<and> \<not> suffix ''A15'' model
      \<and> \<not> suffix ''A16'' model
      \<longrightarrow> max_clock_speed_of_model model = 1336)
   \<and> max_clock_speed_of_model ''Apple M1 Foo'' = 1278"
  by (auto simp add: table_simps prefix_def suffix_to_prefix)

theorem unrecognized_suffix_default_witness:
  "max_clock_speed_of_model ''Apple M1 Foo'' = 1278
   \<and> max_clock_speed_of_model ''Apple M2 Foo'' = 1398
   \<and> max_clock_speed_of_model ''Apple M3 Foo'' = 1398
   \<and> max_clock_speed_of_model ''Apple A17'' = 1336"
proof -
  have m1: "prefix ''Apple M1'' ''Apple M1 Foo'' \<and> \<not> suffix ''M1'' ''Apple M1 Foo''
      \<and> \<not> suffix ''Pro'' ''Apple M1 Foo'' \<and> \<not> suffix ''Max'' ''Apple M1 Foo''
      \<and> \<not> suffix ''Ultra'' ''Apple M1 Foo''"
    by (simp add: suffix_to_prefix)
  have m2: "prefix ''Apple M2'' ''Apple M2 Foo'' \<and> \<not> suffix ''M2'' ''Apple M2 Foo''"
    by (simp add: suffix_to_prefix)
  have m3: "prefix ''Apple M'' ''Apple M3 Foo'' \<and> \<not> prefix ''Apple M1'' ''Apple M3 Foo''
      \<and> \<not> prefix ''Apple M2'' ''Apple M3 Foo''"
    by simp
  have a17: "prefix ''Apple A'' ''Apple A17'' \<and> \<not> suffix ''A14'' ''Apple A17''
      \<and> \<not> suffix ''A15'' ''Apple A17'' \<and> \<not> suffix ''A16'' ''Apple A17''"
    by (simp add: suffix_to_prefix)
  from m1 unrecognized_suffix_default [of "''Apple M1 Foo''"]
  have "max_clock_speed_of_model ''Apple M1 Foo'' = 1278" by blast
  moreover from m2 unrecognized_suffix_default [of "''Apple M2 Foo''"]
  have "max_clock_speed_of_model ''Apple M2 Foo'' = 1398" by blast
  moreover from m3 unrecognized_suffix_default [of "''Apple M3 Foo''"]
  have "max_clock_speed_of_model ''Apple M3 Foo'' = 1398" by blast
  moreover from a17 unrecognized_suffix_default [of "''Apple A17''"]
  have "max_clock_speed_of_model ''Apple A17'' = 1336" by blast
  ultimately show ?thesis by blast
qed

text \<open>
  C7. A model string that starts with none of the recognized family prefixes
  (\<^verbatim>\<open>Apple M1\<close>, \<^verbatim>\<open>Apple M2\<close>, \<^verbatim>\<open>Apple M\<close>, \<^verbatim>\<open>Apple A\<close>) gets 0 instead of a
  failure.
\<close>

theorem unrecognized_prefix_zero:
  "\<not> prefix ''Apple M1'' model \<Longrightarrow> \<not> prefix ''Apple M2'' model \<Longrightarrow>
   \<not> prefix ''Apple M'' model \<Longrightarrow> \<not> prefix ''Apple A'' model \<Longrightarrow>
   max_clock_speed_of_model model = 0"
  by (simp add: table_simps)

theorem unrecognized_prefix_zero_witness:
  "max_clock_speed_of_model ''AMD Radeon Pro 5500M'' = 0"
proof -
  have "\<not> prefix ''Apple M1'' ''AMD Radeon Pro 5500M''"
    and "\<not> prefix ''Apple M2'' ''AMD Radeon Pro 5500M''"
    and "\<not> prefix ''Apple M'' ''AMD Radeon Pro 5500M''"
    and "\<not> prefix ''Apple A'' ''AMD Radeon Pro 5500M''"
    by simp_all
  then show ?thesis by (rule unrecognized_prefix_zero)
qed

text \<open>
  C10. For every model string the lookup returns, and what it returns is one of 0, 1278,
  1296, 1336 and 1398, so it is never negative; for every model string that starts with
  \<^verbatim>\<open>Apple M2\<close> it is 1398, whatever the string ends with.
  \<^verbatim>\<open>get_gpu_max_clock_speed\<close> returns that value whenever the entry has a model
  property.
\<close>

theorem clock_speed_range:
  "max_clock_speed_of_model model \<in> {0, 1278, 1296, 1336, 1398}
   \<and> 0 \<le> sint (max_clock_speed_of_model model)
   \<and> (prefix ''Apple M2'' model \<longrightarrow> max_clock_speed_of_model model = 1398)
   \<and> (string_properties e ''model'' = Some model \<longrightarrow>
        get_gpu_max_clock_speed (Some e) tr
          = (Inr (max_clock_speed_of_model model), tr @ clock_speed_calls))"
proof -
  have "max_clock_speed_of_model model \<in> {0, 1278, 1296, 1336, 1398}"
    by (simp add: max_clock_speed_of_model_def)
  moreover have "0 \<le> sint (max_clock_speed_of_model model)"
    by (simp add: max_clock_speed_of_model_def)
  moreover have "prefix ''Apple M2'' model \<longrightarrow> max_clock_speed_of_model model = 1398"
    by (auto simp add: table_simps prefix_def)
  moreover have "string_properties e ''model'' = Some model \<longrightarrow>
        get_gpu_max_clock_speed (Some e) tr
          = (Inr (max_clock_speed_of_model model), tr @ clock_speed_calls)"
    by (simp add: get_gpu_max_clock_speed_run)
  ultimately show ?thesis by blast
qed

theorem clock_speed_range_witness:
  "prefix ''Apple M2'' ''Apple M2 Pro''
   \<and> max_clock_speed_of_model ''Apple M2 Pro'' = 1398
   \<and> string_properties m2_entry ''model'' = Some ''Apple M2''
   \<and> get_gpu_max_clock_speed (Some m2_entry) []
        = (Inr (max_clock_speed_of_model ''Apple M2''), clock_speed_calls)"
proof -
  have pro: "prefix ''Apple M2'' ''Apple M2 Pro''"
    by simp
  have m2: "string_properties m2_entry ''model'' = Some ''Apple M2''"
    by (simp add: m2_entry_def)
  from pro m2 clock_speed_range [of "''Apple M2 Pro''"]
    clock_speed_range [of "''Apple M2''" m2_entry "[]"]
  show ?thesis by simp
qed

section \<open>Runs of the whole program\<close>

lemma two_or_more: "2 \<le> length xs \<Longrightarrow> \<exists>x y rest. xs = x # y # rest"
  by (cases xs rule: remdups_adj.cases) auto

lemma fatal_with_nonzero: "fatal_with os message \<Longrightarrow> status_of os \<noteq> 0"
  by (simp add: fatal_with_def)

text \<open>
  C1. When the locator yields one device handle, the core-count property exists with
  type \<^verbatim>\<open>kCFNumberSInt64Type\<close> and value 10, and the model property is
  \<^verbatim>\<open>Apple M2\<close>, the program writes the two lines \<^verbatim>\<open>The GPU has 10 cores.\<close> and
  \<^verbatim>\<open>The GPU runs at 1398 MHz.\<close> to the output stream, nothing to the error stream,
  and exits with status 0.
\<close>

theorem end_to_end_apple_m2:
  assumes "service_matching os" and "matching_status os = 0"
    and "matching_services os = [e]"
    and "number_properties e ''gpu-core-count'' = Some n"
    and "number_type n = kCFNumberSInt64Type" and "number_value n = 10"
    and "number_retrieved n"
    and "string_properties e ''model'' = Some ''Apple M2''"
  shows "stdout_of (trace_of os) =
           ''The GPU has 10 cores.'' @ endl @ ''The GPU runs at 1398 MHz.'' @ endl
         \<and> stderr_of (trace_of os) = []
         \<and> status_of os = 0"
proof -
  have clock: "max_clock_speed_of_model ''Apple M2'' = 1398"
    by (simp add: max_clock_speed_of_model_def CFStringHasPrefix_def)
  have ten: "string_of_int64 10 = ''10''"
    by code_simp
  have mhz: "string_of_int64 1398 = ''1398''"
    by code_simp
  have "run os = (0, success_calls @ print_events 10 1398)"
    using assms by (simp add: run_simps clock success_calls_def)
  then show ?thesis
    by (simp add: status_of_def trace_of_def trace_simps ten mhz)
qed

theorem end_to_end_apple_m2_witness:
  "service_matching m2_os \<and> matching_status m2_os = 0 \<and> matching_services m2_os = [m2_entry]
   \<and> number_properties m2_entry ''gpu-core-count'' = Some ten_cores
   \<and> number_type ten_cores = kCFNumberSInt64Type \<and> number_value ten_cores = 10
   \<and> number_retrieved ten_cores
   \<and> string_properties m2_entry ''model'' = Some ''Apple M2''
   \<and> stdout_of (trace_of m2_os) =
         ''The GPU has 10 cores.'' @ endl @ ''The GPU runs at 1398 MHz.'' @ endl
   \<and> status_of m2_os = 0"
proof -
  have h: "service_matching m2_os" "matching_status m2_os = 0"
    "matching_services m2_os = [m2_entry]"
    "number_properties m2_entry ''gpu-core-count'' = Some ten_cores"
    "number_type ten_cores = kCFNumberSInt64Type" "number_value ten_cores = 10"
    "number_retrieved ten_cores"
    "string_properties m2_entry ''model'' = Some ''Apple M2''"
    by (simp_all add: m2_os_def m2_entry_def ten_cores_def)
  from h end_to_end_apple_m2 [OF h] show ?thesis by blast
qed

text \<open>
  C2. When the registry query reports no matching device, the program ends with a fatal
  error: a message on the error stream, a nonzero exit status, nothing on the output
  stream. If the query itself succeeded, the message is that of the core-count read from
  the null handle.
\<close>

theorem no_matching_device_fatal:
  assumes "matching_services os = []"
  shows "fatal_with os
           (if \<not> service_matching os then ''Could not find AGXAccelerator service.''
            else if matching_status os \<noteq> 0 then ''No objects match AGXAccelerator service.''
            else ''Could not find 'gpu-core-count' property.'')
         \<and> status_of os \<noteq> 0"
  using assms by (simp add: fatal_with_def run_simps trace_simps)

theorem no_matching_device_fatal_witness:
  "matching_services no_gpu_os = []
   \<and> fatal_with no_gpu_os ''Could not find 'gpu-core-count' property.''
   \<and> stdout_of (trace_of no_gpu_os) = []"
proof -
  have h: "matching_services no_gpu_os = []"
    and ok: "service_matching no_gpu_os" "matching_status no_gpu_os = 0"
    by (simp_all add: no_gpu_os_def m2_os_def)
  from no_matching_device_fatal [OF h] ok
  have "fatal_with no_gpu_os ''Could not find 'gpu-core-count' property.''"
    by simp
  with h show ?thesis by (simp add: fatal_with_def)
qed

text \<open>
  C3. When the registry query reports two or more matching devices, the program ends
  with a fatal error: a message on the error stream, a nonzero exit status, nothing on
  the output stream. If the query itself succeeded, the message is
  \<^verbatim>\<open>Found multiple GPUs.\<close>
\<close>

theorem several_matching_devices_fatal:
  assumes "2 \<le> length (matching_services os)"
  shows "fatal_with os
           (if \<not> service_matching os then ''Could not find AGXAccelerator service.''
            else if matching_status os \<noteq> 0 then ''No objects match AGXAccelerator service.''
            else ''Found multiple GPUs.'')
         \<and> status_of os \<noteq> 0"
proof -
  from assms obtain e e' rest where "matching_services os = e # e' # rest"
    by (auto dest: two_or_more)
  then show ?thesis
    by (simp add: fatal_with_def run_simps trace_simps)
qed

theorem several_matching_devices_fatal_witness:
  "2 \<le> length (matching_services two_gpus_os)
   \<and> fatal_with two_gpus_os ''Found multiple GPUs.''
   \<and> stdout_of (trace_of two_gpus_os) = []"
proof -
  have h: "2 \<le> length (matching_services two_gpus_os)"
    and ok: "service_matching two_gpus_os" "matching_status two_gpus_os = 0"
    by (simp_all add: two_gpus_os_def m2_os_def)
  from several_matching_devices_fatal [OF h] ok
  have "fatal_with two_gpus_os ''Found multiple GPUs.''"
    by simp
  with h show ?thesis by (simp add: fatal_with_def)
qed

text \<open>
  C4, as the code has it. In every run that exits with status 0 the effects occur in
  this order: the calls that locate the device entry, the calls that read the core
  count, the read of the model string (whose table lookup is the value
  \<^verbatim>\<open>get_gpu_max_clock_speed\<close> returns), the release of the device handle, and only
  then the writes of the two output lines, after which \<^verbatim>\<open>main\<close> returns.
\<close>

theorem successful_run_order:
  assumes "status_of os = 0"
  shows "\<exists>e n model.
           matching_services os = [e]
         \<and> number_properties e ''gpu-core-count'' = Some n
         \<and> string_properties e ''model'' = Some model
         \<and> trace_of os =
             locate_calls @ core_count_calls @ clock_speed_calls
             @ [Call_IOObjectRelease Entry]
             @ print_events (number_value n) (max_clock_speed_of_model model)
         \<and> phases_of (trace_of os) = [Locate, Read_core_count, Read_model, Release, Print]"
  using assms
  by (auto simp add: run_simps trace_simps phases_of_def
      split: if_splits list.splits option.splits)

theorem successful_run_order_witness:
  "status_of m2_os = 0
   \<and> phases_of (trace_of m2_os) = [Locate, Read_core_count, Read_model, Release, Print]"
proof -
  have h: "status_of m2_os = 0"
    by (simp add: run_simps example_simps)
  from successful_run_order [OF h] h show ?thesis by blast
qed

text \<open>
  C4 as it is stated puts the two output lines before the release of the device handle.
  On the machine with one Apple M2 accelerator the run is successful and its stages are
  not in that order.
\<close>

theorem print_before_release_counterexample:
  "\<not> (status_of m2_os = 0 \<longrightarrow>
        phases_of (trace_of m2_os) = [Locate, Read_core_count, Read_model, Print, Release])"
  by (simp add: run_simps trace_simps phases_of_def example_simps)

text \<open>
  C8. When the core-count property of the first matching entry exists but its type is not
  \<^verbatim>\<open>kCFNumberSInt64Type\<close>, the run is fatal and the model property is never searched,
  so no clock-speed lookup happens. If the locator has handed that entry to
  \<^verbatim>\<open>main\<close>, the message is \<^verbatim>\<open>'gpu-core-count' not sInt64.\<close> and the run consists
  of locating, reading the core count and reporting the error.
\<close>

theorem wrong_core_count_type_fatal:
  assumes "matching_services os = e # rest"
    and "number_properties e ''gpu-core-count'' = Some n"
    and "number_type n \<noteq> kCFNumberSInt64Type"
  shows "(\<exists>message. fatal_with os message)
       \<and> Call_IORegistryEntrySearchCFProperty ''model'' \<notin> set (trace_of os)
       \<and> (service_matching os \<and> matching_status os = 0 \<and> rest = [] \<longrightarrow>
            fatal_with os '''gpu-core-count' not sInt64.''
          \<and> phases_of (trace_of os) = [Locate, Read_core_count, Report_error])"
  using assms
  by (cases rest) (auto simp add: fatal_with_def run_simps trace_simps phases_of_def)

theorem wrong_core_count_type_fatal_witness:
  "matching_services (os_with sint32_entry) = [sint32_entry]
   \<and> number_properties sint32_entry ''gpu-core-count''
       = Some (ten_cores\<lparr>number_type := kCFNumberSInt32Type\<rparr>)
   \<and> fatal_with (os_with sint32_entry) '''gpu-core-count' not sInt64.''
   \<and> Call_IORegistryEntrySearchCFProperty ''model'' \<notin> set (trace_of (os_with sint32_entry))"
proof -
  have h1: "matching_services (os_with sint32_entry) = sint32_entry # []"
    and h2: "number_properties sint32_entry ''gpu-core-count''
       = Some (ten_cores\<lparr>number_type := kCFNumberSInt32Type\<rparr>)"
    and h3: "number_type (ten_cores\<lparr>number_type := kCFNumberSInt32Type\<rparr>)
       \<noteq> kCFNumberSInt64Type"
    and ok: "service_matching (os_with sint32_entry)"
      "matching_status (os_with sint32_entry) = 0"
    by (simp_all add: os_with_def sint32_entry_def m2_os_def)
  from wrong_core_count_type_fatal [OF h1 h2 h3] ok h1 h2 show ?thesis by blast
qed

text \<open>
  C9. Every failure path is fatal in the same way: the failed construction of the match
  query, an error of the service query, more than one or no matching device, a missing
  property, a core-count property of the wrong type, and a failed extraction of its
  value each print their message to the error stream and end the process through
  \<^verbatim>\<open>exit(-1)\<close>, with nothing on the output stream and no call made a second time.
  Every run that does not exit with status 0 is one of these, and its status reaches the
  parent as 255, so the exit status tells no cause from another.
\<close>

theorem every_failure_fatal:
  "(\<not> service_matching os \<longrightarrow> fatal_with os ''Could not find AGXAccelerator service.'')
   \<and> (service_matching os \<and> matching_status os \<noteq> 0 \<longrightarrow>
        fatal_with os ''No objects match AGXAccelerator service.'')
   \<and> (service_matching os \<and> matching_status os = 0 \<and> 2 \<le> length (matching_services os) \<longrightarrow>
        fatal_with os ''Found multiple GPUs.'')
   \<and> (service_matching os \<and> matching_status os = 0 \<and> matching_services os = [] \<longrightarrow>
        fatal_with os ''Could not find 'gpu-core-count' property.'')
   \<and> (locates os e \<and> number_properties e ''gpu-core-count'' = None \<longrightarrow>
        fatal_with os ''Could not find 'gpu-core-count' property.'')
   \<and> (locates os e \<and> number_properties e ''gpu-core-count'' = Some n
        \<and> number_type n \<noteq> kCFNumberSInt64Type \<longrightarrow>
        fatal_with os '''gpu-core-count' not sInt64.'')
   \<and> (locates os e \<and> number_properties e ''gpu-core-count'' = Some n
        \<and> number_type n = kCFNumberSInt64Type \<and> \<not> number_retrieved n \<longrightarrow>
        fatal_with os ''Could not fetch 'gpu-core-count' value.'')
   \<and> (locates os e \<and> number_properties e ''gpu-core-count'' = Some n
        \<and> number_type n = kCFNumberSInt64Type \<and> number_retrieved n
        \<and> string_properties e ''model'' = None \<longrightarrow>
        fatal_with os ''Could not find 'model' property.'')
   \<and> (status_of os = 0
        \<or> wait_status (status_of os) = 255
          \<and> (\<exists>message \<in> set assert_messages. fatal_with os message))"
proof -
  have c1: "\<not> service_matching os \<longrightarrow>
        fatal_with os ''Could not find AGXAccelerator service.''"
    by (simp add: fatal_with_def run_simps trace_simps)
  have c2: "service_matching os \<and> matching_status os \<noteq> 0 \<longrightarrow>
        fatal_with os ''No objects match AGXAccelerator service.''"
    by (simp add: fatal_with_def run_simps trace_simps)
  have c3: "service_matching os \<and> matching_status os = 0
        \<and> 2 \<le> length (matching_services os) \<longrightarrow> fatal_with os ''Found multiple GPUs.''"
    by (auto dest!: two_or_more simp add: fatal_with_def run_simps trace_simps)
  have c4: "service_matching os \<and> matching_status os = 0 \<and> matching_services os = [] \<longrightarrow>
        fatal_with os ''Could not find 'gpu-core-count' property.''"
    by (simp add: fatal_with_def run_simps trace_simps)
  have c5: "locates os e \<and> number_properties e ''gpu-core-count'' = None \<longrightarrow>
        fatal_with os ''Could not find 'gpu-core-count' property.''"
    by (simp add: locates_def fatal_with_def run_simps trace_simps)
  have c6: "locates os e \<and> number_properties e ''gpu-core-count'' = Some n
        \<and> number_type n \<noteq> kCFNumberSInt64Type \<longrightarrow>
        fatal_with os '''gpu-core-count' not sInt64.''"
    by (simp add: locates_def fatal_with_def run_simps trace_simps)
  have c7: "locates os e \<and> number_properties e ''gpu-core-count'' = Some n
        \<and> number_type n = kCFNumberSInt64Type \<and> \<not> number_retrieved n \<longrightarrow>
        fatal_with os ''Could not fetch 'gpu-core-count' value.''"
    by (simp add: locates_def fatal_with_def run_simps trace_simps)
  have c8: "locates os e \<and> number_properties e ''gpu-core-count'' = Some n
        \<and> number_type n = kCFNumberSInt64Type \<and> number_retrieved n
        \<and> string_properties e ''model'' = None \<longrightarrow>
        fatal_with os ''Could not find 'model' property.''"
    by (simp add: locates_def fatal_with_def run_simps trace_simps)
  have c9: "status_of os = 0
        \<or> wait_status (status_of os) = 255
          \<and> (\<exists>message \<in> set assert_messages. fatal_with os message)"
  proof (cases "status_of os = 0")
    case True
    then show ?thesis by simp
  next
    case False
    then have fatal: "\<exists>message \<in> set assert_messages. fatal_with os message"
      by (cases "matching_services os" rule: remdups_adj.cases)
         (auto simp add: assert_messages_def fatal_with_def run_simps trace_simps
          split: option.splits)
    then have "status_of os = - 1"
      by (auto simp add: fatal_with_def)
    then have "wait_status (status_of os) = 255"
      by (simp add: wait_status_def unsigned_minus_1_eq_mask mask_eq_exp_minus_1)
    with fatal show ?thesis by simp
  qed
  show ?thesis
    by (intro conjI c1 c2 c3 c4 c5 c6 c7 c8 c9)
qed

theorem every_failure_fatal_witness:
  "fatal_with no_dictionary_os ''Could not find AGXAccelerator service.''
   \<and> fatal_with query_error_os ''No objects match AGXAccelerator service.''
   \<and> fatal_with two_gpus_os ''Found multiple GPUs.''
   \<and> fatal_with no_gpu_os ''Could not find 'gpu-core-count' property.''
   \<and> fatal_with (os_with no_core_count_entry) ''Could not find 'gpu-core-count' property.''
   \<and> fatal_with (os_with sint32_entry) '''gpu-core-count' not sInt64.''
   \<and> fatal_with (os_with unretrieved_entry) ''Could not fetch 'gpu-core-count' value.''
   \<and> fatal_with (os_with no_model_entry) ''Could not find 'model' property.''"
proof -
  have h1: "\<not> service_matching no_dictionary_os"
    by (simp add: example_simps)
  have h2: "service_matching query_error_os \<and> matching_status query_error_os \<noteq> 0"
    by (simp add: example_simps)
  have h3: "service_matching two_gpus_os \<and> matching_status two_gpus_os = 0
      \<and> 2 \<le> length (matching_services two_gpus_os)"
    by (simp add: example_simps)
  have h4: "service_matching no_gpu_os \<and> matching_status no_gpu_os = 0
      \<and> matching_services no_gpu_os = []"
    by (simp add: example_simps)
  have h5: "locates (os_with no_core_count_entry) no_core_count_entry
      \<and> number_properties no_core_count_entry ''gpu-core-count'' = None"
    by (simp add: locates_def example_simps)
  have h6: "locates (os_with sint32_entry) sint32_entry
      \<and> number_properties sint32_entry ''gpu-core-count''
          = Some (ten_cores\<lparr>number_type := kCFNumberSInt32Type\<rparr>)
      \<and> number_type (ten_cores\<lparr>number_type := kCFNumberSInt32Type\<rparr>) \<noteq> kCFNumberSInt64Type"
    by (simp add: locates_def os_with_def sint32_entry_def m2_os_def)
  have h7: "locates (os_with unretrieved_entry) unretrieved_entry
      \<and> number_properties unretrieved_entry ''gpu-core-count''
          = Some (ten_cores\<lparr>number_retrieved := False\<rparr>)
      \<and> number_type (ten_cores\<lparr>number_retrieved := False\<rparr>) = kCFNumberSInt64Type
      \<and> \<not> number_retrieved (ten_cores\<lparr>number_retrieved := False\<rparr>)"
    by (simp add: locates_def os_with_def unretrieved_entry_def m2_os_def ten_cores_def)
  have h8: "locates (os_with no_model_entry) no_model_entry
      \<and> number_properties no_model_entry ''gpu-core-count'' = Some ten_cores
      \<and> number_type ten_cores = kCFNumberSInt64Type \<and> number_retrieved ten_cores
      \<and> string_properties no_model_entry ''model'' = None"
    by (simp add: locates_def example_simps)
  from h1 every_failure_fatal [where os = no_dictionary_os]
  have "fatal_with no_dictionary_os ''Could not find AGXAccelerator service.''"
    by blast
  moreover from h2 every_failure_fatal [where os = query_error_os]
  have "fatal_with query_error_os ''No objects match AGXAccelerator service.''"
    by blast
  moreover from h3 every_failure_fatal [where os = two_gpus_os]
  have "fatal_with two_gpus_os ''Found multiple GPUs.''"
    by blast
  moreover from h4 every_failure_fatal [where os = no_gpu_os]
  have "fatal_with no_gpu_os ''Could not find 'gpu-core-count' property.''"
    by blast
  moreover from h5
    every_failure_fatal [where os = "os_with no_core_count_entry" and e = no_core_count_entry]
  have "fatal_with (os_with no_core_count_entry) ''Could not find 'gpu-core-count' property.''"
    by blast
  moreover from h6
    every_failure_fatal [where os = "os_with sint32_entry" and e = sint32_entry
      and n = "ten_cores\<lparr>number_type := kCFNumberSInt32Type\<rparr>"]
  have "fatal_with (os_with sint32_entry) '''gpu-core-count' not sInt64.''"
    by blast
  moreover from h7
    every_failure_fatal [where os = "os_with unretrieved_entry" and e = unretrieved_entry
      and n = "ten_cores\<lparr>number_retrieved := False\<rparr>"]
  have "fatal_with (os_with unretrieved_entry) ''Could not fetch 'gpu-core-count' value.''"
    by blast
  moreover from h8
    every_failure_fatal [where os = "os_with no_model_entry" and e = no_model_entry
      and n = ten_cores]
  have "fatal_with (os_with no_model_entry) ''Could not find 'model' property.''"
    by blast
  ultimately show ?thesis by blast
qed

end
